theory Spec2Isabelle
  imports Main "HOL-Library.Word"
begin

unbundle bit_operations_syntax

section \<open>Values, errors and the environment of reset.py\<close>

type_synonym byte = "8 word"

text \<open>
  The values \<^verbatim>\<open>json.load\<close> returns: \<^verbatim>\<open>None\<close>, \<^verbatim>\<open>bool\<close>, \<^verbatim>\<open>int\<close>, \<^verbatim>\<open>float\<close>
  (an IEEE double, kept as its 64 bits), \<^verbatim>\<open>str\<close>, \<^verbatim>\<open>list\<close> and \<^verbatim>\<open>dict\<close>. A dict keeps
  its keys in insertion order, so it is an association list.
\<close>

datatype json =
    JNull
  | JBool bool
  | JInt int
  | JFloat "64 word"
  | JString string
  | JArray "json list"
  | JObject "(string \<times> json) list"

text \<open>
  The exceptions a run can end with. \<open>OSError\<close> carries the message of line 52;
  \<open>JSONDecodeError\<close> stands for every failure of \<^verbatim>\<open>json.load\<close> to decode and parse the
  text of the file.
\<close>

datatype error =
    OSError string
  | TypeError
  | JSONDecodeError
  | FileNotFoundError
  | FileExistsError
  | NotADirectoryError
  | IsADirectoryError
  | PermissionError

record datetime =
  year :: nat
  month :: nat
  day :: nat
  hour :: nat
  minute :: nat
  second :: nat

text \<open>A regular file: its bytes and the metadata \<^verbatim>\<open>shutil.copy2\<close> carries over.\<close>

record regular_file =
  content :: string
  mode :: nat
  mtime :: datetime

datatype node = File regular_file | Dir

text \<open>
  A path is the list of its components. The first component is the base directory the
  operating system supplies (the value of \<^verbatim>\<open>APPDATA\<close> or the home directory), taken as
  one opaque location; \<open>[]\<close> is the anchor above it, which always exists.
\<close>

type_synonym path = "string list"

type_synonym filesystem = "path \<Rightarrow> node option"

text \<open>
  What a run reads from outside: \<^verbatim>\<open>platform.system()\<close>, \<^verbatim>\<open>os.getenv("APPDATA")\<close>,
  \<^verbatim>\<open>os.path.expanduser("~")\<close>, the clock \<^verbatim>\<open>datetime.now()\<close>, the permission bits a new
  file gets, and the standard library's JSON codec: \<open>loads\<close> is \<^verbatim>\<open>json.load\<close> on the
  text of a file (\<open>None\<close> when it raises), \<open>dumps\<close> is \<^verbatim>\<open>json.dumps(_, indent=2)\<close>.
  Two decisions of the platform belong to it as well: whether the operating system lets
  the process open a regular file for reading and for writing (it decides from the
  metadata of the file and the identity of the process), and whether the C library
  pads the year of \<^verbatim>\<open>%Y\<close> to four digits.
\<close>

record env =
  system :: string
  appdata :: "string option"
  home :: string
  now :: datetime
  create_mode :: nat
  loads :: "string \<Rightarrow> json option"
  dumps :: "json \<Rightarrow> string"
  can_read :: "regular_file \<Rightarrow> bool"
  can_write :: "regular_file \<Rightarrow> bool"
  year_padded :: bool

text \<open>
  What a run changes: the file system, the operating system's random source (the bytes
  still to be drawn) and standard output (one entry per \<^verbatim>\<open>print\<close>).
\<close>

record world =
  fs :: filesystem
  rand :: "nat \<Rightarrow> byte"
  stdout :: "string list"

section \<open>Paths and the file system\<close>

definition joinpath :: "path \<Rightarrow> string \<Rightarrow> path" where
  "joinpath p c = p @ [c]"

definition parent :: "path \<Rightarrow> path" where
  "parent p = butlast p"

definition node_at :: "filesystem \<Rightarrow> path \<Rightarrow> node option" where
  "node_at f p = (if p = [] then Some Dir else f p)"

definition exists :: "filesystem \<Rightarrow> path \<Rightarrow> bool" where
  "exists f p = (node_at f p \<noteq> None)"

definition is_dir :: "filesystem \<Rightarrow> path \<Rightarrow> bool" where
  "is_dir f p = (node_at f p = Some Dir)"

text \<open>\<^verbatim>\<open>os.mkdir\<close>: one directory, whose parent must be a directory.\<close>

definition os_mkdir :: "filesystem \<Rightarrow> path \<Rightarrow> error + filesystem" where
  "os_mkdir f p =
     (case node_at f p of
        Some _ \<Rightarrow> Inl FileExistsError
      | None \<Rightarrow>
          (case node_at f (parent p) of
             None \<Rightarrow> Inl FileNotFoundError
           | Some (File _) \<Rightarrow> Inl NotADirectoryError
           | Some Dir \<Rightarrow> Inr (f(p \<mapsto> Dir))))"

text \<open>\<^verbatim>\<open>Path.mkdir(parents=False, exist_ok=True)\<close>, the last step of the recursion below.\<close>

definition mkdir_exist_ok :: "filesystem \<Rightarrow> path \<Rightarrow> (error + unit) \<times> filesystem" where
  "mkdir_exist_ok f p =
     (case os_mkdir f p of
        Inr f' \<Rightarrow> (Inr (), f')
      | Inl e \<Rightarrow>
          if e = FileNotFoundError then (Inl e, f)
          else if is_dir f p then (Inr (), f)
          else (Inl e, f))"

text \<open>
  \<^verbatim>\<open>Path.mkdir(parents=True, exist_ok=True)\<close> of line 67: try the directory itself; when
  its parent is missing, make the parent the same way and try again; any other failure
  is forgiven when the path is a directory already.
\<close>

function mkdir_parents :: "filesystem \<Rightarrow> path \<Rightarrow> (error + unit) \<times> filesystem" where
  "mkdir_parents f p =
     (case os_mkdir f p of
        Inr f' \<Rightarrow> (Inr (), f')
      | Inl e \<Rightarrow>
          if e = FileNotFoundError then
            (if parent p = p then (Inl e, f)
             else (case mkdir_parents f (parent p) of
                     (Inl e', f1) \<Rightarrow> (Inl e', f1)
                   | (Inr _, f1) \<Rightarrow> mkdir_exist_ok f1 p))
          else if is_dir f p then (Inr (), f)
          else (Inl e, f))"
  by pat_completeness auto
termination
proof (relation "measure (\<lambda>(f, p). length p)")
  show "wf (measure (\<lambda>(f :: filesystem, p :: path). length p))"
    by simp
next
  fix f :: filesystem and p :: path and e :: error
  assume "parent p \<noteq> p"
  then have "p \<noteq> []"
    by (auto simp: parent_def)
  then show "((f, parent p), (f, p)) \<in> measure (\<lambda>(f, p). length p)"
    by (simp add: parent_def)
qed

text \<open>
  Opening a path for writing and storing a whole file there: an existing regular file
  is replaced when the process may write it, a new one needs its parent directory.
\<close>

definition put_file :: "env \<Rightarrow> filesystem \<Rightarrow> path \<Rightarrow> regular_file \<Rightarrow> error + filesystem" where
  "put_file e f p x =
     (case node_at f p of
        Some Dir \<Rightarrow> Inl IsADirectoryError
      | Some (File y) \<Rightarrow> if can_write e y then Inr (f(p \<mapsto> File x)) else Inl PermissionError
      | None \<Rightarrow>
          (case node_at f (parent p) of
             None \<Rightarrow> Inl FileNotFoundError
           | Some (File _) \<Rightarrow> Inl NotADirectoryError
           | Some Dir \<Rightarrow> Inr (f(p \<mapsto> File x))))"

text \<open>
  Where \<^verbatim>\<open>shutil.copy2(src, dst)\<close> puts the copy: a destination that is a directory
  receives it under the source's own name.
\<close>

definition copy_target :: "filesystem \<Rightarrow> path \<Rightarrow> path \<Rightarrow> path" where
  "copy_target f src dst = (if is_dir f dst then joinpath dst (last src) else dst)"

text \<open>
  \<^verbatim>\<open>shutil.copy2(src, dst)\<close>: the source is opened for reading, the target for
  writing; content and metadata of the regular file are carried over.
\<close>

definition copy2 :: "env \<Rightarrow> filesystem \<Rightarrow> path \<Rightarrow> path \<Rightarrow> error + filesystem" where
  "copy2 e f src dst =
     (case node_at f src of
        None \<Rightarrow> Inl FileNotFoundError
      | Some Dir \<Rightarrow> Inl IsADirectoryError
      | Some (File x) \<Rightarrow>
          if can_read e x then put_file e f (copy_target f src dst) x
          else Inl PermissionError)"

text \<open>\<^verbatim>\<open>open(p, 'r')\<close> and reading the whole file.\<close>

definition read_text :: "env \<Rightarrow> filesystem \<Rightarrow> path \<Rightarrow> error + string" where
  "read_text e f p =
     (case node_at f p of
        None \<Rightarrow> Inl FileNotFoundError
      | Some Dir \<Rightarrow> Inl IsADirectoryError
      | Some (File x) \<Rightarrow> if can_read e x then Inr (content x) else Inl PermissionError)"

text \<open>
  \<^verbatim>\<open>open(p, 'w')\<close>, writing the text and closing: an existing file keeps its permission
  bits, a new one gets the default ones.
\<close>

definition write_text :: "env \<Rightarrow> filesystem \<Rightarrow> path \<Rightarrow> string \<Rightarrow> error + filesystem" where
  "write_text e f p s =
     put_file e f p
       (case node_at f p of
          Some (File x) \<Rightarrow> x\<lparr>content := s, mtime := now e\<rparr>
        | _ \<Rightarrow> \<lparr>content = s, mode = create_mode e, mtime = now e\<rparr>)"

section \<open>Time stamps\<close>

definition digit_char :: "nat \<Rightarrow> char" where
  "digit_char n = ''0123456789'' ! (n mod 10)"

fun dec :: "nat \<Rightarrow> string" where
  "dec n = (if n < 10 then [digit_char n] else dec (n div 10) @ [digit_char n])"

text \<open>A decimal number padded with zeros on the left to a width, as \<^verbatim>\<open>%m\<close> or \<^verbatim>\<open>%Y\<close> print it.\<close>

definition zpad :: "nat \<Rightarrow> nat \<Rightarrow> string" where
  "zpad w n = replicate (w - length (dec n)) (CHR ''0'') @ dec n"

text \<open>
  \<^verbatim>\<open>strftime('%Y%m%d_%H%M%S')\<close>. The year is printed with four digits where the C
  library pads it and with its own digits where it does not; the two differ for the
  years before 1000.
\<close>

definition strftime :: "bool \<Rightarrow> datetime \<Rightarrow> string" where
  "strftime padded t =
     (if padded then zpad 4 (year t) else dec (year t)) @
     zpad 2 (month t) @ zpad 2 (day t) @ ''_'' @
     zpad 2 (hour t) @ zpad 2 (minute t) @ zpad 2 (second t)"

text \<open>\<^verbatim>\<open>datetime.now().strftime('%Y%m%d_%H%M%S')\<close> of line 30.\<close>

definition timestamp :: "env \<Rightarrow> string" where
  "timestamp e = strftime (year_padded e) (now e)"

text \<open>The ranges of the fields of a \<^verbatim>\<open>datetime\<close> object.\<close>

definition valid_datetime :: "datetime \<Rightarrow> bool" where
  "valid_datetime t \<longleftrightarrow>
     1 \<le> year t \<and> year t \<le> 9999 \<and> 1 \<le> month t \<and> month t \<le> 12 \<and>
     1 \<le> day t \<and> day t \<le> 31 \<and> hour t < 24 \<and> minute t < 60 \<and> second t < 60"

section \<open>backup_file\<close>

text \<open>
  The text \<^verbatim>\<open>f"{file_path}.backup_{...}"\<close> of line 30 names the location whose last
  component is that of \<open>file_path\<close> with the suffix appended.
\<close>

definition backup_path :: "path \<Rightarrow> string \<Rightarrow> path" where
  "backup_path file_path ts =
     (case file_path of
        [] \<Rightarrow> [''.backup_'' @ ts]
      | _ \<Rightarrow> butlast file_path @ [last file_path @ ''.backup_'' @ ts])"

definition backup_file :: "env \<Rightarrow> path \<Rightarrow> filesystem \<Rightarrow> error + filesystem" where
  "backup_file e file_path f =
     (if exists f file_path then copy2 e f file_path (backup_path file_path (timestamp e))
      else Inr f)"

section \<open>get_storage_file\<close>

definition get_storage_file :: "env \<Rightarrow> error + path" where
  "get_storage_file e =
     (if system e = ''Windows'' then
        (case appdata e of
           None \<Rightarrow> Inl TypeError
         | Some a \<Rightarrow>
             Inr (joinpath (joinpath (joinpath (joinpath [a] ''Cursor'') ''User'')
                    ''globalStorage'') ''storage.json''))
      else if system e = ''Darwin'' then
        Inr (joinpath (joinpath (joinpath (joinpath (joinpath (joinpath [home e]
               ''Library'') ''Application Support'') ''Cursor'') ''User'')
               ''globalStorage'') ''storage.json'')
      else if system e = ''Linux'' then
        Inr (joinpath (joinpath (joinpath (joinpath (joinpath [home e]
               ''.config'') ''Cursor'') ''User'') ''globalStorage'') ''storage.json'')
      else Inl (OSError (''Unsupported operating system: '' @ system e)))"

section \<open>Identifiers\<close>

text \<open>\<^verbatim>\<open>os.urandom(n)\<close>: the next \<open>n\<close> bytes of the random source.\<close>

definition urandom :: "nat \<Rightarrow> world \<Rightarrow> byte list \<times> world" where
  "urandom n w = (map (rand w) [0..<n], w\<lparr>rand := (\<lambda>i. rand w (i + n))\<rparr>)"

definition hexdigits :: string where
  "hexdigits = ''0123456789abcdef''"

definition hex_byte :: "byte \<Rightarrow> string" where
  "hex_byte b = [hexdigits ! (unat b div 16), hexdigits ! (unat b mod 16)]"

text \<open>\<^verbatim>\<open>bytes.hex()\<close>.\<close>

definition bytes_hex :: "byte list \<Rightarrow> string" where
  "bytes_hex bs = concat (map hex_byte bs)"

text \<open>
  \<^verbatim>\<open>uuid.uuid4()\<close> draws 16 random bytes and overwrites the version nibble (high half
  of byte 6) with 4 and the two variant bits (top of byte 8) with binary 10.
\<close>

definition uuid4 :: "world \<Rightarrow> byte list \<times> world" where
  "uuid4 w =
     (case urandom 16 w of
        (bs, w') \<Rightarrow>
          (bs[6 := (bs ! 6 AND 0x0f) OR 0x40, 8 := (bs ! 8 AND 0x3f) OR 0x80], w'))"

text \<open>\<^verbatim>\<open>str\<close> of a UUID: 32 hexadecimal digits in groups of 8, 4, 4, 4 and 12.\<close>

definition str_uuid :: "byte list \<Rightarrow> string" where
  "str_uuid bs =
     bytes_hex (take 4 bs) @ ''-'' @ bytes_hex (take 2 (drop 4 bs)) @ ''-'' @
     bytes_hex (take 2 (drop 6 bs)) @ ''-'' @ bytes_hex (take 2 (drop 8 bs)) @ ''-'' @
     bytes_hex (drop 10 bs)"

record ids =
  machine_id :: string
  mac_machine_id :: string
  dev_device_id :: string

text \<open>Lines 80 to 82.\<close>

definition generate_ids :: "world \<Rightarrow> ids \<times> world" where
  "generate_ids w =
     (case urandom 32 w of
        (r1, w1) \<Rightarrow>
          (case urandom 32 w1 of
             (r2, w2) \<Rightarrow>
               (case uuid4 w2 of
                  (u, w3) \<Rightarrow>
                    (\<lparr>machine_id = bytes_hex r1, mac_machine_id = bytes_hex r2,
                      dev_device_id = str_uuid u\<rparr>, w3))))"

section \<open>The document\<close>

text \<open>\<^verbatim>\<open>d[k] = v\<close> on a dict: an existing key keeps its place, a new one goes last.\<close>

fun dict_setitem :: "(string \<times> json) list \<Rightarrow> string \<Rightarrow> json \<Rightarrow> (string \<times> json) list" where
  "dict_setitem [] k v = [(k, v)]"
| "dict_setitem ((k', v') # d) k v =
     (if k' = k then (k, v) # d else (k', v') # dict_setitem d k v)"

text \<open>
  \<^verbatim>\<open>data[k] = v\<close> with a string key on any loaded value: only a dict accepts it; a list,
  a string, a number, a boolean and \<^verbatim>\<open>None\<close> raise \<^verbatim>\<open>TypeError\<close>.
\<close>

fun setitem :: "json \<Rightarrow> string \<Rightarrow> json \<Rightarrow> error + json" where
  "setitem (JObject d) k v = Inr (JObject (dict_setitem d k v))"
| "setitem _ k v = Inl TypeError"

text \<open>Lines 73 to 77.\<close>

definition load_document :: "env \<Rightarrow> filesystem \<Rightarrow> path \<Rightarrow> error + json" where
  "load_document e f storage_file =
     (if \<not> exists f storage_file then Inr (JObject [])
      else (case read_text e f storage_file of
              Inl err \<Rightarrow> Inl err
            | Inr s \<Rightarrow> (case loads e s of None \<Rightarrow> Inl JSONDecodeError | Some v \<Rightarrow> Inr v)))"

text \<open>Lines 85 to 87.\<close>

definition update_document :: "json \<Rightarrow> ids \<Rightarrow> error + json" where
  "update_document data i =
     (case setitem data ''telemetry.machineId'' (JString (machine_id i)) of
        Inl err \<Rightarrow> Inl err
      | Inr d1 \<Rightarrow>
          (case setitem d1 ''telemetry.macMachineId'' (JString (mac_machine_id i)) of
             Inl err \<Rightarrow> Inl err
           | Inr d2 \<Rightarrow> setitem d2 ''telemetry.devDeviceId'' (JString (dev_device_id i))))"

text \<open>The two \<^verbatim>\<open>print\<close> calls of lines 94 to 102; the banner starts with U+1F389.\<close>

definition report :: "env \<Rightarrow> ids \<Rightarrow> string list" where
  "report e i =
     [[CHR 0xF0, CHR 0x9F, CHR 0x8E, CHR 0x89] @
        '' Device IDs have been successfully reset. The new device IDs are: '' @ [CHR 0x0A],
      dumps e (JObject [(''machineId'', JString (machine_id i)),
                        (''macMachineId'', JString (mac_machine_id i)),
                        (''devDeviceId'', JString (dev_device_id i))])]"

section \<open>reset_cursor_id\<close>

definition reset_cursor_id :: "env \<Rightarrow> world \<Rightarrow> (error + unit) \<times> world" where
  "reset_cursor_id e w =
     (case get_storage_file e of
        Inl err \<Rightarrow> (Inl err, w)
      | Inr storage_file \<Rightarrow>
          (case mkdir_parents (fs w) (parent storage_file) of
             (Inl err, f1) \<Rightarrow> (Inl err, w\<lparr>fs := f1\<rparr>)
           | (Inr _, f1) \<Rightarrow>
               (case backup_file e storage_file f1 of
                  Inl err \<Rightarrow> (Inl err, w\<lparr>fs := f1\<rparr>)
                | Inr f2 \<Rightarrow>
                    (case load_document e f2 storage_file of
                       Inl err \<Rightarrow> (Inl err, w\<lparr>fs := f2\<rparr>)
                     | Inr data \<Rightarrow>
                         (case generate_ids (w\<lparr>fs := f2\<rparr>) of
                            (i, w3) \<Rightarrow>
                              (case update_document data i of
                                 Inl err \<Rightarrow> (Inl err, w3)
                               | Inr data' \<Rightarrow>
                                   (case write_text e (fs w3) storage_file (dumps e data') of
                                      Inl err \<Rightarrow> (Inl err, w3)
                                    | Inr f4 \<Rightarrow>
                                        (Inr (),
                                         w3\<lparr>fs := f4,
                                            stdout := stdout w3 @ report e i\<rparr>))))))))"

section \<open>Properties stated by the specification\<close>

definition is_hexdigit :: "char \<Rightarrow> bool" where
  "is_hexdigit c \<longleftrightarrow> c \<in> set hexdigits"

text \<open>The pattern \<^verbatim>\<open>^[0-9a-f]{64}$\<close>.\<close>

definition is_hex64 :: "string \<Rightarrow> bool" where
  "is_hex64 s \<longleftrightarrow> length s = 64 \<and> list_all is_hexdigit s"

text \<open>
  The canonical text of a version 4 UUID:
  \<^verbatim>\<open>^[0-9a-f]{8}-[0-9a-f]{4}-4[0-9a-f]{3}-[89ab][0-9a-f]{3}-[0-9a-f]{12}$\<close>.
\<close>

definition is_uuid4 :: "string \<Rightarrow> bool" where
  "is_uuid4 s \<longleftrightarrow>
     length s = 36 \<and>
     list_all is_hexdigit (take 8 s) \<and> s ! 8 = CHR ''-'' \<and>
     list_all is_hexdigit (take 4 (drop 9 s)) \<and> s ! 13 = CHR ''-'' \<and>
     s ! 14 = CHR ''4'' \<and> list_all is_hexdigit (take 3 (drop 15 s)) \<and>
     s ! 18 = CHR ''-'' \<and>
     s ! 19 \<in> set ''89ab'' \<and> list_all is_hexdigit (take 3 (drop 20 s)) \<and>
     s ! 23 = CHR ''-'' \<and>
     list_all is_hexdigit (drop 24 s)"

definition is_digit :: "char \<Rightarrow> bool" where
  "is_digit c \<longleftrightarrow> c \<in> set ''0123456789''"

text \<open>The layout \<^verbatim>\<open>YYYYMMDD_HHMMSS\<close>: eight digits, an underscore, six digits.\<close>

definition is_timestamp :: "string \<Rightarrow> bool" where
  "is_timestamp s \<longleftrightarrow>
     length s = 15 \<and> list_all is_digit (take 8 s) \<and> s ! 8 = CHR ''_'' \<and>
     list_all is_digit (drop 9 s)"




text \<open>
  Whether a whole file can be stored at a path: the path is free in an existing
  directory, or it holds a regular file the process may write.
\<close>

definition can_put :: "env \<Rightarrow> filesystem \<Rightarrow> path \<Rightarrow> bool" where
  "can_put e f p =
     (case node_at f p of
        None \<Rightarrow> is_dir f (parent p)
      | Some Dir \<Rightarrow> False
      | Some (File y) \<Rightarrow> can_write e y)"

text \<open>Where line 31 puts the backup of a file.\<close>

definition backup_target :: "env \<Rightarrow> filesystem \<Rightarrow> path \<Rightarrow> path" where
  "backup_target e f p = copy_target f p (backup_path p (timestamp e))"

subsection \<open>Valid JSON\<close>

text \<open>
  The grammar of JSON texts (RFC 8259) as a recogniser on the bytes of a text. Every
  parser returns the input that follows what it has read. Bytes above 0x7F are taken
  as parts of encoded characters.
\<close>

definition is_ws :: "char \<Rightarrow> bool" where
  "is_ws c \<longleftrightarrow> c \<in> set [CHR 0x20, CHR 0x09, CHR 0x0A, CHR 0x0D]"

definition skip_ws :: "string \<Rightarrow> string" where
  "skip_ws s = dropWhile is_ws s"

definition is_hex_any :: "char \<Rightarrow> bool" where
  "is_hex_any c \<longleftrightarrow> c \<in> set ''0123456789abcdefABCDEF''"

definition is_escape :: "char \<Rightarrow> bool" where
  "is_escape c \<longleftrightarrow> c \<in> set [CHR 0x22, CHR 0x5C, CHR ''/'', CHR ''b'', CHR ''f'', CHR ''n'',
     CHR ''r'', CHR ''t'']"

text \<open>The characters of a string after its opening quotation mark, up to the closing one.\<close>

function json_string_rest :: "string \<Rightarrow> string option" where
  "json_string_rest [] = None"
| "json_string_rest (c # cs) =
     (if c = CHR 0x22 then Some cs
      else if c = CHR 0x5C then
        (case cs of
           [] \<Rightarrow> None
         | x # cs' \<Rightarrow>
             if is_escape x then json_string_rest cs'
             else if x = CHR ''u'' \<and> 4 \<le> length cs' \<and> list_all is_hex_any (take 4 cs')
             then json_string_rest (drop 4 cs')
             else None)
      else if (of_char c :: nat) < 0x20 then None
      else json_string_rest cs)"
  by pat_completeness auto
termination
  by (relation "measure length") auto

text \<open>One or more digits.\<close>

definition json_digits :: "string \<Rightarrow> string option" where
  "json_digits s =
     (case s of
        [] \<Rightarrow> None
      | c # r \<Rightarrow> if is_digit c then Some (dropWhile is_digit r) else None)"

text \<open>An optional exponent.\<close>

definition json_exp :: "string \<Rightarrow> string option" where
  "json_exp s =
     (case s of
        [] \<Rightarrow> Some []
      | c # r \<Rightarrow>
          if c = CHR ''e'' \<or> c = CHR ''E'' then
            json_digits (case r of
                           [] \<Rightarrow> []
                         | d # r' \<Rightarrow> if d = CHR ''+'' \<or> d = CHR ''-'' then r' else r)
          else Some s)"

text \<open>An optional fraction, then an optional exponent.\<close>

definition json_frac :: "string \<Rightarrow> string option" where
  "json_frac s =
     (case s of
        [] \<Rightarrow> Some []
      | c # r \<Rightarrow>
          if c = CHR ''.'' then
            (case json_digits r of None \<Rightarrow> None | Some r' \<Rightarrow> json_exp r')
          else json_exp s)"

text \<open>A number: an optional minus, zero or digits without a leading zero, and the rest.\<close>

definition json_number :: "string \<Rightarrow> string option" where
  "json_number s =
     (case (case s of [] \<Rightarrow> [] | c # r \<Rightarrow> if c = CHR ''-'' then r else s) of
        [] \<Rightarrow> None
      | c # r \<Rightarrow>
          if c = CHR ''0'' then json_frac r
          else if is_digit c then json_frac (dropWhile is_digit r)
          else None)"

text \<open>
  Values, the elements of an array after its bracket, and the members of an object
  after its brace. The first argument bounds the number of nested calls.
\<close>

fun json_value :: "nat \<Rightarrow> string \<Rightarrow> string option"
  and json_elements :: "nat \<Rightarrow> string \<Rightarrow> string option"
  and json_members :: "nat \<Rightarrow> string \<Rightarrow> string option" where
  "json_value 0 s = None"
| "json_value (Suc n) s =
     (if take 4 s = ''true'' then Some (drop 4 s)
      else if take 5 s = ''false'' then Some (drop 5 s)
      else if take 4 s = ''null'' then Some (drop 4 s)
      else (case s of
              [] \<Rightarrow> None
            | c # r \<Rightarrow>
                if c = CHR 0x22 then json_string_rest r
                else if c = CHR 0x5B then
                  (case skip_ws r of
                     [] \<Rightarrow> None
                   | d # r' \<Rightarrow> if d = CHR 0x5D then Some r' else json_elements n (d # r'))
                else if c = CHR 0x7B then
                  (case skip_ws r of
                     [] \<Rightarrow> None
                   | d # r' \<Rightarrow> if d = CHR 0x7D then Some r' else json_members n (d # r'))
                else json_number s))"
| "json_elements 0 s = None"
| "json_elements (Suc n) s =
     (case json_value n s of
        None \<Rightarrow> None
      | Some r \<Rightarrow>
          (case skip_ws r of
             [] \<Rightarrow> None
           | d # r' \<Rightarrow>
               if d = CHR '','' then json_elements n (skip_ws r')
               else if d = CHR 0x5D then Some r'
               else None))"
| "json_members 0 s = None"
| "json_members (Suc n) s =
     (case s of
        [] \<Rightarrow> None
      | c # r \<Rightarrow>
          if c \<noteq> CHR 0x22 then None
          else (case json_string_rest r of
                  None \<Rightarrow> None
                | Some r1 \<Rightarrow>
                    (case skip_ws r1 of
                       [] \<Rightarrow> None
                     | d # r2 \<Rightarrow>
                         if d \<noteq> CHR '':'' then None
                         else (case json_value n (skip_ws r2) of
                                 None \<Rightarrow> None
                               | Some r3 \<Rightarrow>
                                   (case skip_ws r3 of
                                      [] \<Rightarrow> None
                                    | d' # r4 \<Rightarrow>
                                        if d' = CHR '','' then json_members n (skip_ws r4)
                                        else if d' = CHR 0x7D then Some r4
                                        else None)))))"


section \<open>Example inputs\<close>

definition example_now :: datetime where
  "example_now =
     \<lparr>year = 2024, month = 12, day = 10, hour = 15, minute = 30, second = 45\<rparr>"

definition example_later :: datetime where
  "example_later = example_now\<lparr>second := 46\<rparr>"

definition example_d0 :: "(string \<times> json) list" where
  "example_d0 = [(''A'', JInt 1), (''telemetry.machineId'', JString ''old'')]"

definition example_text0 :: string where
  "example_text0 = ''{\"A\": 1, \"telemetry.machineId\": \"old\"}''"

definition example_d1 :: "(string \<times> json) list" where
  "example_d1 =
     [(''A'', JInt 1),
      (''telemetry.machineId'',
       JString ''000102030405060708090a0b0c0d0e0f101112131415161718191a1b1c1d1e1f''),
      (''telemetry.macMachineId'',
       JString ''202122232425262728292a2b2c2d2e2f303132333435363738393a3b3c3d3e3f''),
      (''telemetry.devDeviceId'', JString ''40414243-4445-4647-8849-4a4b4c4d4e4f'')]"

definition example_text1 :: string where
  "example_text1 =
     ''{'' @ [CHR 0x0A] @
     ''  \"A\": 1,'' @ [CHR 0x0A] @
     ''  \"telemetry.machineId\": \"000102030405060708090a0b0c0d0e0f101112131415161718191a1b1c1d1e1f\",'' @ [CHR 0x0A] @
     ''  \"telemetry.macMachineId\": \"202122232425262728292a2b2c2d2e2f303132333435363738393a3b3c3d3e3f\",'' @ [CHR 0x0A] @
     ''  \"telemetry.devDeviceId\": \"40414243-4445-4647-8849-4a4b4c4d4e4f\"'' @ [CHR 0x0A] @
     ''}''"

text \<open>
  A text that is not valid JSON and that \<^verbatim>\<open>json.load\<close> accepts all the same: it reads
  \<^verbatim>\<open>NaN\<close> as the float of that name. The run on it writes the second text.
\<close>

definition example_text_nan :: string where
  "example_text_nan = ''{\"x\": NaN}''"

definition example_d_nan :: "(string \<times> json) list" where
  "example_d_nan = [(''x'', JFloat 0x7FF8000000000000)]"

definition example_d_nan1 :: "(string \<times> json) list" where
  "example_d_nan1 =
     [(''x'', JFloat 0x7FF8000000000000),
      (''telemetry.machineId'',
       JString ''000102030405060708090a0b0c0d0e0f101112131415161718191a1b1c1d1e1f''),
      (''telemetry.macMachineId'',
       JString ''202122232425262728292a2b2c2d2e2f303132333435363738393a3b3c3d3e3f''),
      (''telemetry.devDeviceId'', JString ''40414243-4445-4647-8849-4a4b4c4d4e4f'')]"

definition example_text_nan1 :: string where
  "example_text_nan1 =
     ''{'' @ [CHR 0x0A] @
     ''  \"x\": NaN,'' @ [CHR 0x0A] @
     ''  \"telemetry.machineId\": \"000102030405060708090a0b0c0d0e0f101112131415161718191a1b1c1d1e1f\",'' @ [CHR 0x0A] @
     ''  \"telemetry.macMachineId\": \"202122232425262728292a2b2c2d2e2f303132333435363738393a3b3c3d3e3f\",'' @ [CHR 0x0A] @
     ''  \"telemetry.devDeviceId\": \"40414243-4445-4647-8849-4a4b4c4d4e4f\"'' @ [CHR 0x0A] @
     ''}''"

text \<open>What a second run writes when it draws the bytes that follow those of the first.\<close>

definition example_d2 :: "(string \<times> json) list" where
  "example_d2 =
     [(''A'', JInt 1),
      (''telemetry.machineId'',
       JString ''505152535455565758595a5b5c5d5e5f606162636465666768696a6b6c6d6e6f''),
      (''telemetry.macMachineId'',
       JString ''707172737475767778797a7b7c7d7e7f808182838485868788898a8b8c8d8e8f''),
      (''telemetry.devDeviceId'', JString ''90919293-9495-4697-9899-9a9b9c9d9e9f'')]"

definition example_text2 :: string where
  "example_text2 =
     ''{'' @ [CHR 0x0A] @
     ''  \"A\": 1,'' @ [CHR 0x0A] @
     ''  \"telemetry.machineId\": \"505152535455565758595a5b5c5d5e5f606162636465666768696a6b6c6d6e6f\",'' @ [CHR 0x0A] @
     ''  \"telemetry.macMachineId\": \"707172737475767778797a7b7c7d7e7f808182838485868788898a8b8c8d8e8f\",'' @ [CHR 0x0A] @
     ''  \"telemetry.devDeviceId\": \"90919293-9495-4697-9899-9a9b9c9d9e9f\"'' @ [CHR 0x0A] @
     ''}''"

text \<open>What a run writes when the random source yields zeros only.\<close>

definition example_d_zero :: "(string \<times> json) list" where
  "example_d_zero =
     [(''A'', JInt 1),
      (''telemetry.machineId'',
       JString ''0000000000000000000000000000000000000000000000000000000000000000''),
      (''telemetry.macMachineId'',
       JString ''0000000000000000000000000000000000000000000000000000000000000000''),
      (''telemetry.devDeviceId'', JString ''00000000-0000-4000-8000-000000000000'')]"

definition example_text_zero :: string where
  "example_text_zero =
     ''{'' @ [CHR 0x0A] @
     ''  \"A\": 1,'' @ [CHR 0x0A] @
     ''  \"telemetry.machineId\": \"0000000000000000000000000000000000000000000000000000000000000000\",'' @ [CHR 0x0A] @
     ''  \"telemetry.macMachineId\": \"0000000000000000000000000000000000000000000000000000000000000000\",'' @ [CHR 0x0A] @
     ''  \"telemetry.devDeviceId\": \"00000000-0000-4000-8000-000000000000\"'' @ [CHR 0x0A] @
     ''}''"

text \<open>The JSON codec on the texts and documents of the examples.\<close>

definition example_loads :: "string \<Rightarrow> json option" where
  "example_loads s =
     (if s = example_text0 then Some (JObject example_d0)
      else if s = example_text1 then Some (JObject example_d1)
      else if s = ''[1, 2]'' then Some (JArray [JInt 1, JInt 2])
      else if s = example_text_nan then Some (JObject example_d_nan)
      else if s = example_text_nan1 then Some (JObject example_d_nan1)
      else if s = example_text2 then Some (JObject example_d2)
      else if s = example_text_zero then Some (JObject example_d_zero)
      else None)"

definition example_dumps :: "json \<Rightarrow> string" where
  "example_dumps v =
     (if v = JObject example_d0 then example_text0
      else if v = JObject example_d1 then example_text1
      else if v = JArray [JInt 1, JInt 2] then ''[1, 2]''
      else if v = JObject example_d_nan then example_text_nan
      else if v = JObject example_d_nan1 then example_text_nan1
      else if v = JObject example_d2 then example_text2
      else if v = JObject example_d_zero then example_text_zero
      else ''null'')"

text \<open>
  The environment of an ordinary user who owns the files: the owner's read bit (0400)
  and write bit (0200) decide; the C library does not pad the year.
\<close>

definition example_env :: "string \<Rightarrow> datetime \<Rightarrow> env" where
  "example_env sys t =
     \<lparr>system = sys, appdata = None, home = ''/home/u'', now = t, create_mode = 420,
      loads = example_loads, dumps = example_dumps,
      can_read = (\<lambda>x. bit (mode x) 8), can_write = (\<lambda>x. bit (mode x) 7),
      year_padded = False\<rparr>"

definition example_dir :: path where
  "example_dir = [''/home/u'', ''.config'', ''Cursor'', ''User'', ''globalStorage'']"

definition example_sf :: path where
  "example_sf = example_dir @ [''storage.json'']"

definition example_file :: "string \<Rightarrow> regular_file" where
  "example_file c =
     \<lparr>content = c, mode = 384,
      mtime = \<lparr>year = 2024, month = 11, day = 2, hour = 9, minute = 0, second = 7\<rparr>\<rparr>"

text \<open>A file system with the configuration directory and a given configuration file.\<close>

definition example_fs :: "regular_file \<Rightarrow> filesystem" where
  "example_fs x =
     [[''/home/u''] \<mapsto> Dir,
      [''/home/u'', ''.config''] \<mapsto> Dir,
      [''/home/u'', ''.config'', ''Cursor''] \<mapsto> Dir,
      [''/home/u'', ''.config'', ''Cursor'', ''User''] \<mapsto> Dir,
      example_dir \<mapsto> Dir,
      example_sf \<mapsto> File x]"

text \<open>A world whose configuration file holds a given text.\<close>

definition example_world :: "string \<Rightarrow> world" where
  "example_world c =
     \<lparr>fs = example_fs (example_file c), rand = (\<lambda>n. of_nat n), stdout = []\<rparr>"




text \<open>A clock reading in the year 999.\<close>

definition example_early :: datetime where
  "example_early = \<lparr>year = 999, month = 1, day = 2, hour = 3, minute = 4, second = 5\<rparr>"

text \<open>A world before the first start of the editor: only the home directory exists.\<close>

definition fresh_world :: world where
  "fresh_world = \<lparr>fs = [[''/home/u''] \<mapsto> Dir], rand = (\<lambda>n. of_nat n), stdout = []\<rparr>"

section \<open>Directories\<close>

declare mkdir_parents.simps [simp del]

declare dec.simps [simp del]







section \<open>Path resolution\<close>


text \<open>
  Claim C3: on an operating system other than Windows, Darwin and Linux the run ends
  with the unsupported-platform error of line 52 and the world is untouched: no
  directory is made, nothing is copied, read or written, no random byte is drawn and
  nothing is printed.
\<close>

theorem unsupported_platform_no_effects:
  assumes "system e \<noteq> ''Windows''" and "system e \<noteq> ''Darwin''" and "system e \<noteq> ''Linux''"
  shows "reset_cursor_id e w =
    (Inl (OSError (''Unsupported operating system: '' @ system e)), w)"
  using assms by (simp add: reset_cursor_id_def get_storage_file_def)

theorem unsupported_platform_no_effects_witness:
  "reset_cursor_id (example_env ''FreeBSD'' example_now) (example_world example_text0) =
    (Inl (OSError ''Unsupported operating system: FreeBSD''), example_world example_text0)"
proof -
  have "system (example_env ''FreeBSD'' example_now) \<noteq> ''Windows''"
    and "system (example_env ''FreeBSD'' example_now) \<noteq> ''Darwin''"
    and "system (example_env ''FreeBSD'' example_now) \<noteq> ''Linux''"
    by (simp_all add: example_env_def)
  from unsupported_platform_no_effects [OF this, of "example_world example_text0"]
  show ?thesis
    by (simp add: example_env_def)
qed

text \<open>
  Claim C9: on Windows the path is built from the value of \<^verbatim>\<open>APPDATA\<close>. When the
  variable is unset, \<^verbatim>\<open>Path(None)\<close> raises a type error, not the unsupported-platform
  error, and the run ends there with the world untouched; the path of the contract is
  returned only when the variable is set.
\<close>

theorem windows_needs_appdata:
  assumes "system e = ''Windows''"
  shows "get_storage_file e =
      (case appdata e of
         None \<Rightarrow> Inl TypeError
       | Some a \<Rightarrow> Inr [a, ''Cursor'', ''User'', ''globalStorage'', ''storage.json''])
    \<and> (appdata e = None \<longrightarrow> reset_cursor_id e w = (Inl TypeError, w))"
  using assms
  by (simp add: get_storage_file_def reset_cursor_id_def joinpath_def split: option.splits)

theorem windows_needs_appdata_witness:
  "get_storage_file (example_env ''Windows'' example_now) = Inl TypeError
   \<and> reset_cursor_id (example_env ''Windows'' example_now) fresh_world =
       (Inl TypeError, fresh_world)
   \<and> get_storage_file
       ((example_env ''Windows'' example_now)\<lparr>appdata := Some ''C:/Users/u/AppData/Roaming''\<rparr>) =
       Inr [''C:/Users/u/AppData/Roaming'', ''Cursor'', ''User'', ''globalStorage'',
            ''storage.json'']"
proof -
  have a: "system (example_env ''Windows'' example_now) = ''Windows''"
    by (simp add: example_env_def)
  have b: "system ((example_env ''Windows'' example_now)
             \<lparr>appdata := Some ''C:/Users/u/AppData/Roaming''\<rparr>) = ''Windows''"
    by (simp add: example_env_def)
  from windows_needs_appdata [OF a, of fresh_world] windows_needs_appdata [OF b, of fresh_world]
  show ?thesis
    by (simp add: example_env_def)
qed

section \<open>Identifier formats\<close>

lemma drop_bit_version: "drop_bit 4 (((b::byte) AND 0x0f) OR 0x40) = 4"
  by (simp add: drop_bit_or drop_bit_and)

lemma drop_bit_variant: "drop_bit 6 (((b::byte) AND 0x3f) OR 0x80) = 2"
  by (simp add: drop_bit_or drop_bit_and)

lemma unat_div_drop_bit:
  "unat (x :: byte) div 16 = unat (drop_bit 4 x)" "unat (x :: byte) div 64 = unat (drop_bit 6 x)"
  by (simp_all add: drop_bit_eq_div unat_div)

lemma version_nibble: "unat (((b::byte) AND 0x0f) OR 0x40) div 16 = 4"
  unfolding unat_div_drop_bit drop_bit_version by simp

lemma variant_nibble: "unat (((b::byte) AND 0x3f) OR 0x80) div 16 \<in> {8, 9, 10, 11}"
proof -
  have "unat ((b AND 0x3f) OR 0x80) div 64 = 2"
    unfolding unat_div_drop_bit drop_bit_variant by simp
  then show ?thesis
    by auto
qed

lemma hexdigit_nth: "n < 16 \<Longrightarrow> is_hexdigit (hexdigits ! n)"
proof -
  have "length hexdigits = 16"
    by (simp add: hexdigits_def)
  then show "n < 16 \<Longrightarrow> is_hexdigit (hexdigits ! n)"
    unfolding is_hexdigit_def by (metis nth_mem)
qed

lemma byte_less_256: "unat (b :: byte) < 256"
  using unsigned_less [of b, where ?'a = nat] by simp

lemma hex_byte_hex: "list_all is_hexdigit (hex_byte b)"
proof -
  from byte_less_256 [of b] have "unat b div 16 < 16" "unat b mod 16 < 16"
    by auto
  then show ?thesis
    by (simp add: hex_byte_def hexdigit_nth)
qed

lemma bytes_hex_hex: "list_all is_hexdigit (bytes_hex bs)"
  by (induction bs) (simp_all add: bytes_hex_def hex_byte_hex)

lemma length_bytes_hex: "length (bytes_hex bs) = 2 * length bs"
  by (induction bs) (simp_all add: bytes_hex_def hex_byte_def)

lemma version_char: "hexdigits ! (unat (((b::byte) AND 0x0f) OR 0x40) div 16) = CHR ''4''"
  by (simp add: version_nibble hexdigits_def)

lemma variant_char:
  "hexdigits ! (unat (((b::byte) AND 0x3f) OR 0x80) div 16) \<in> set ''89ab''"
  using variant_nibble [of b] by (auto simp: hexdigits_def)

lemma hex_byte_chars:
  "is_hexdigit (hexdigits ! (unat (b::byte) div 16))"
  "is_hexdigit (hexdigits ! (unat b mod 16))"
  using hex_byte_hex [of b] by (simp_all add: hex_byte_def)

lemma upt_16: "[0..<16] = [0, 1, 2, 3, 4, 5, 6, 7, 8, 9, 10, 11, 12, 13, 14, 15 :: nat]"
  by (simp add: upt_conv_Cons)

lemma uuid4_bytes:
  "fst (uuid4 w) =
     [rand w 0, rand w 1, rand w 2, rand w 3, rand w 4, rand w 5,
      (rand w 6 AND 0x0f) OR 0x40, rand w 7, (rand w 8 AND 0x3f) OR 0x80, rand w 9,
      rand w 10, rand w 11, rand w 12, rand w 13, rand w 14, rand w 15]"
  by (simp add: uuid4_def urandom_def upt_16 numeral_eq_Suc)

lemma uuid4_shape: "is_uuid4 (str_uuid (fst (uuid4 w)))"
  unfolding uuid4_bytes is_uuid4_def str_uuid_def
  by (simp add: bytes_hex_def hex_byte_def hex_byte_chars version_char variant_char
      del: set_simps)

text \<open>
  Claim C6: whatever the random source yields, the machine identifier and the Mac
  machine identifier drawn at lines 80 and 81 are 64 lower-case hexadecimal digits
  (the hex encoding of 32 bytes), and the device identifier of line 82 is the
  36-character text of a version 4 UUID.
\<close>

theorem generated_ids_format:
  "is_hex64 (machine_id (fst (generate_ids w))) \<and>
   is_hex64 (mac_machine_id (fst (generate_ids w))) \<and>
   is_uuid4 (dev_device_id (fst (generate_ids w)))"
  by (simp add: generate_ids_def split_beta uuid4_shape is_hex64_def bytes_hex_hex
      length_bytes_hex urandom_def del: upt_rec_numeral)

section \<open>Backups\<close>

lemma backup_path_sibling:
  assumes "p \<noteq> []"
  shows "parent (backup_path p ts) = parent p"
    and "last (backup_path p ts) = last p @ ''.backup_'' @ ts"
    and "backup_path p ts \<noteq> p"
    and "backup_path p ts \<noteq> []"
    and "backup_path p ts \<noteq> parent p"
    and "length (backup_path p ts) = length p"
proof -
  from assms obtain q c where p: "p = q @ [c]"
    by (cases p rule: rev_cases) auto
  have "backup_path (q @ [c]) ts = q @ [c @ ''.backup_'' @ ts]"
    by (cases q) (simp_all add: backup_path_def)
  with p have bp: "backup_path p ts = q @ [c @ ''.backup_'' @ ts]"
    by simp
  show "parent (backup_path p ts) = parent p"
    using bp p by (simp add: parent_def)
  show "last (backup_path p ts) = last p @ ''.backup_'' @ ts"
    using bp p by simp
  show "backup_path p ts \<noteq> p"
    using bp p by simp
  show "backup_path p ts \<noteq> []"
    using bp by simp
  show "backup_path p ts \<noteq> parent p"
    using bp p by (simp add: parent_def)
  show "length (backup_path p ts) = length p"
    using bp p by simp
qed




lemma put_file_ok:
  "can_put e f p \<Longrightarrow> put_file e f p x = Inr (f(p \<mapsto> File x))"
  by (auto simp: can_put_def put_file_def is_dir_def split: option.splits node.splits)

lemma put_file_result:
  "put_file e f p x = Inr f' \<Longrightarrow> f' = f(p \<mapsto> File x)"
  by (auto simp: put_file_def split: option.splits node.splits if_splits)


lemma backup_file_copies:
  assumes "node_at f p = Some (File x)"
    and "can_read e x"
    and "can_put e f (backup_target e f p)"
  shows "backup_file e p f = Inr (f(backup_target e f p \<mapsto> File x))"
  using assms
  by (simp add: backup_file_def exists_def copy2_def backup_target_def put_file_ok)

lemma backup_file_result:
  assumes "node_at f p = Some (File x)" and "backup_file e p f = Inr f'"
  shows "f' = f(backup_target e f p \<mapsto> File x)"
  using assms
  by (auto simp: backup_file_def exists_def copy2_def backup_target_def
      split: if_splits dest: put_file_result)




text \<open>Facts about the examples.\<close>

lemma example_env_fields:
  "now (example_env s t) = t" "loads (example_env s t) = example_loads"
  "dumps (example_env s t) = example_dumps"
  "can_read (example_env s t) x = bit (mode x) 8"
  "can_write (example_env s t) x = bit (mode x) 7"
  "year_padded (example_env s t) = False"
  by (simp_all add: example_env_def)

lemma example_timestamp:
  "timestamp (example_env s example_now) = ''20241210_153045''"
  "timestamp (example_env s example_later) = ''20241210_153046''"
  by code_simp+

lemma example_sf_parts:
  "example_sf \<noteq> []" "parent example_sf = example_dir" "last example_sf = ''storage.json''"
  "example_dir \<noteq> []" "example_sf \<noteq> example_dir"
  by (simp_all add: example_sf_def example_dir_def parent_def)

lemma example_backup_path:
  "backup_path example_sf ts = example_dir @ [''storage.json.backup_'' @ ts]"
  by (simp add: backup_path_def example_sf_def example_dir_def)


lemma example_fs_file:
  "example_fs x example_sf = Some (File x)"
  "node_at (example_fs x) example_sf = Some (File x)"
  by (simp_all add: example_fs_def node_at_def example_sf_def)

lemma example_fs_dir:
  "example_fs x example_dir = Some Dir"
  "is_dir (example_fs x) example_dir"
  "node_at (example_fs x) example_dir = Some Dir"
  by (simp_all add: example_fs_def is_dir_def node_at_def example_sf_def example_dir_def)

lemma example_fs_free:
  "c \<noteq> ''storage.json'' \<Longrightarrow> example_fs x (example_dir @ [c]) = None"
  "c \<noteq> ''storage.json'' \<Longrightarrow> node_at (example_fs x) (example_dir @ [c]) = None"
  "example_fs x (example_dir @ [c, d]) = None"
  "node_at (example_fs x) (example_dir @ [c, d]) = None"
  "parent (example_dir @ [c]) = example_dir"
  "parent (example_dir @ [c, d]) = example_dir @ [c]"
  by (simp_all add: example_fs_def node_at_def example_sf_def example_dir_def parent_def)

lemma example_backup_target:
  "backup_target (example_env s example_now) (example_fs x) example_sf =
     example_dir @ [''storage.json.backup_20241210_153045'']"
  "can_put (example_env s example_now) (example_fs x)
     (example_dir @ [''storage.json.backup_20241210_153045''])"
  by (simp_all add: backup_target_def copy_target_def example_timestamp example_backup_path
      is_dir_def can_put_def example_fs_free parent_def example_fs_dir)

lemma example_mode_bits:
  "bit (384 :: nat) 8" "bit (384 :: nat) 7" "bit (292 :: nat) 8" "\<not> bit (292 :: nat) 7"
  "\<not> bit (128 :: nat) 8" "bit (Suc 0) 0"
  by (simp_all add: bit_0)

lemma example_modes:
  "bit (mode (example_file c)) 8" "bit (mode (example_file c)) 7"
  "mode (example_file c) = 384"
  by (simp_all add: example_file_def example_mode_bits)

lemma example_backup_into_dir:
  assumes "bit (mode x) 8"
  shows "backup_file (example_env ''Linux'' example_now) example_sf
     ((example_fs x)(example_dir @ [''storage.json.backup_20241210_153045''] \<mapsto> Dir)) =
     Inr ((example_fs x)
        (example_dir @ [''storage.json.backup_20241210_153045''] \<mapsto> Dir,
         example_dir @ [''storage.json.backup_20241210_153045'', ''storage.json''] \<mapsto>
           File x))"
proof -
  let ?e = "example_env ''Linux'' example_now"
  let ?bp = "example_dir @ [''storage.json.backup_20241210_153045'']"
  let ?f = "(example_fs x)(?bp \<mapsto> Dir)"
  have n: "node_at ?f example_sf = Some (File x)"
    by (simp add: node_at_def example_sf_def example_fs_file [unfolded example_sf_def])
  have t: "backup_target ?e ?f example_sf = ?bp @ [''storage.json'']"
    by (simp add: backup_target_def copy_target_def example_timestamp example_backup_path
        is_dir_def node_at_def joinpath_def example_sf_parts)
  have p: "can_put ?e ?f (?bp @ [''storage.json''])"
    by (simp add: can_put_def is_dir_def example_fs_free node_at_def)
  show ?thesis
    using backup_file_copies [OF n _ p [folded t]] assms
    by (simp add: t example_env_fields)
qed





section \<open>Backup names\<close>

lemma digit_char_digit: "is_digit (digit_char n)"
proof -
  have "n mod 10 < length ''0123456789''"
    by simp
  then show ?thesis
    unfolding is_digit_def digit_char_def by (rule nth_mem)
qed

lemma digit_char_0: "digit_char 0 = CHR ''0''"
  by (simp add: digit_char_def)

lemma dec_1: "n < 10 \<Longrightarrow> dec n = [digit_char n]"
  by (simp add: dec.simps [of n])

lemma dec_2: "10 \<le> n \<Longrightarrow> n < 100 \<Longrightarrow> dec n = [digit_char (n div 10), digit_char n]"
  by (simp add: dec.simps [of n] dec_1)

lemma dec_3:
  "100 \<le> n \<Longrightarrow> n < 1000 \<Longrightarrow>
   dec n = [digit_char (n div 100), digit_char (n div 10), digit_char n]"
  by (simp add: dec.simps [of n] dec_2 div_mult2_eq [symmetric])

lemma dec_4:
  "1000 \<le> n \<Longrightarrow> n < 10000 \<Longrightarrow>
   dec n = [digit_char (n div 1000), digit_char (n div 100), digit_char (n div 10),
            digit_char n]"
  by (simp add: dec.simps [of n] dec_3 div_mult2_eq [symmetric])

lemma replicate_small: "replicate 2 c = [c, c]" "replicate 3 c = [c, c, c]"
  by (simp_all add: numeral_2_eq_2 numeral_3_eq_3)

lemma zpad_2: "n < 100 \<Longrightarrow> zpad 2 n = [digit_char (n div 10), digit_char n]"
  by (cases "n < 10") (simp_all add: zpad_def dec_1 dec_2 digit_char_0)

lemma zpad_4:
  assumes "n < 10000"
  shows "zpad 4 n =
    [digit_char (n div 1000), digit_char (n div 100), digit_char (n div 10), digit_char n]"
proof -
  consider "n < 10" | "10 \<le> n" "n < 100" | "100 \<le> n" "n < 1000" | "1000 \<le> n"
    by linarith
  then show ?thesis
  proof cases
    case 1
    then show ?thesis
      by (simp add: zpad_def dec_1 digit_char_0 replicate_small)
  next
    case 2
    then show ?thesis
      by (simp add: zpad_def dec_2 digit_char_0 replicate_small)
  next
    case 3
    then show ?thesis
      by (simp add: zpad_def dec_3 digit_char_0 replicate_small)
  next
    case 4
    with assms show ?thesis
      by (simp add: zpad_def dec_4)
  qed
qed

text \<open>With a year of four digits the padding of the year makes no difference.\<close>

lemma strftime_digits:
  assumes "valid_datetime t" and "padded \<or> 1000 \<le> year t"
  shows "strftime padded t =
    [digit_char (year t div 1000), digit_char (year t div 100), digit_char (year t div 10),
     digit_char (year t), digit_char (month t div 10), digit_char (month t),
     digit_char (day t div 10), digit_char (day t), CHR ''_'',
     digit_char (hour t div 10), digit_char (hour t), digit_char (minute t div 10),
     digit_char (minute t), digit_char (second t div 10), digit_char (second t)]"
proof (cases padded)
  case True
  with assms(1) show ?thesis
    by (simp add: strftime_def valid_datetime_def zpad_2 zpad_4)
next
  case False
  with assms have "1000 \<le> year t" "year t < 10000"
    by (simp_all add: valid_datetime_def)
  with assms(1) False show ?thesis
    by (simp add: strftime_def valid_datetime_def zpad_2 dec_4)
qed

lemma underscore_not_digit: "\<not> is_digit (CHR ''_'')"
  by (simp add: is_digit_def)

lemma strftime_shape:
  assumes "valid_datetime t" and "padded \<or> 1000 \<le> year t"
  shows "is_timestamp (strftime padded t)"
    and "length (filter is_digit (strftime padded t)) = 14"
  unfolding strftime_digits [OF assms] is_timestamp_def
  by (simp_all add: digit_char_digit underscore_not_digit)

text \<open>
  Claim C7, as stated, fails in two ways. With a directory at the backup name the
  backup file that is created lies inside that directory and bears the name of the
  original, without a suffix. And where the C library does not pad the year, a clock
  in the year 999 gives a time stamp of thirteen digits.
\<close>

theorem backup_name_exceptions:
  "backup_file (example_env ''Linux'' example_now) example_sf
     ((example_fs (example_file ''[]''))
        (example_dir @ [''storage.json.backup_20241210_153045''] \<mapsto> Dir)) =
     Inr ((example_fs (example_file ''[]''))
        (example_dir @ [''storage.json.backup_20241210_153045''] \<mapsto> Dir,
         example_dir @ [''storage.json.backup_20241210_153045'', ''storage.json''] \<mapsto>
           File (example_file ''[]''))) \<and>
   parent (example_dir @ [''storage.json.backup_20241210_153045'', ''storage.json'']) \<noteq>
     parent example_sf \<and>
   valid_datetime example_early \<and>
   backup_file (example_env ''Linux'' example_early) example_sf
     (example_fs (example_file ''[]'')) =
     Inr ((example_fs (example_file ''[]''))
        (example_dir @ [''storage.json.backup_9990102_030405''] \<mapsto>
           File (example_file ''[]''))) \<and>
   length (filter is_digit ''9990102_030405'') = 13"
proof -
  let ?e = "example_env ''Linux'' example_early"
  let ?x = "example_file ''[]''"
  note a = example_backup_into_dir [OF example_modes(1), of "''[]''"]
  have ts: "timestamp ?e = ''9990102_030405''"
    by code_simp
  have t: "backup_target ?e (example_fs ?x) example_sf =
      example_dir @ [''storage.json.backup_9990102_030405'']"
    by (simp add: backup_target_def copy_target_def ts example_backup_path is_dir_def
        example_fs_free)
  have p: "can_put ?e (example_fs ?x) (example_dir @ [''storage.json.backup_9990102_030405''])"
    by (simp add: can_put_def example_fs_free example_fs_dir)
  have b: "backup_file ?e example_sf (example_fs ?x) =
      Inr ((example_fs ?x)(example_dir @ [''storage.json.backup_9990102_030405''] \<mapsto> File ?x))"
    using backup_file_copies [OF example_fs_file(2) _ p [folded t]]
    by (simp add: t example_env_fields example_modes example_mode_bits)
  have c: "valid_datetime example_early"
    by (simp add: valid_datetime_def example_early_def)
  have d: "length (filter is_digit ''9990102_030405'') = 13"
    by (simp add: is_digit_def)
  have e: "parent (example_dir @ [''storage.json.backup_20241210_153045'', ''storage.json''])
      \<noteq> parent example_sf"
    by (simp add: example_fs_free example_sf_parts)
  show ?thesis
    using a b c d e by simp
qed

text \<open>
  Claim C7, amended: a backup that \<open>backup_file\<close> makes while no directory has the
  backup name is the one change to the file system; it lies in the directory of the
  file, and its name is the name of the file followed by \<^verbatim>\<open>.backup_\<close> and the time
  stamp of the clock. For a clock reading with a year of four digits, or a C library
  that pads the year, the time stamp has fourteen digits: eight for the date, an
  underscore, six for the time of day.
\<close>

theorem backup_name_convention:
  assumes "node_at f p = Some (File x)"
    and "backup_file e p f = Inr f'"
    and "\<not> is_dir f (backup_path p (timestamp e))"
    and "valid_datetime (now e)"
    and "year_padded e \<or> 1000 \<le> year (now e)"
  shows "f' = f(backup_path p (timestamp e) \<mapsto> File x) \<and>
    parent (backup_path p (timestamp e)) = parent p \<and>
    last (backup_path p (timestamp e)) = last p @ ''.backup_'' @ timestamp e \<and>
    is_timestamp (timestamp e) \<and> length (filter is_digit (timestamp e)) = 14"
proof -
  from assms(1) have p: "p \<noteq> []"
    by (auto simp: node_at_def split: if_splits)
  from assms(3) have "backup_target e f p = backup_path p (timestamp e)"
    by (simp add: backup_target_def copy_target_def)
  with backup_file_result [OF assms(1,2)]
  have "f' = f(backup_path p (timestamp e) \<mapsto> File x)"
    by simp
  with p assms(4,5) show ?thesis
    by (simp add: backup_path_sibling timestamp_def strftime_shape)
qed

theorem backup_name_convention_witness:
  "backup_file (example_env ''Linux'' example_now) example_sf
     (example_fs (example_file ''[]'')) =
     Inr ((example_fs (example_file ''[]''))
        (example_dir @ [''storage.json.backup_20241210_153045''] \<mapsto>
           File (example_file ''[]''))) \<and>
   parent (example_dir @ [''storage.json.backup_20241210_153045'']) = example_dir \<and>
   is_timestamp ''20241210_153045''"
proof -
  let ?e = "example_env ''Linux'' example_now"
  let ?x = "example_file ''[]''"
  let ?f' = "(example_fs ?x)(example_dir @ [''storage.json.backup_20241210_153045''] \<mapsto>
      File ?x)"
  have a: "backup_file ?e example_sf (example_fs ?x) = Inr ?f'"
    using backup_file_copies [OF example_fs_file(2), of ?e ?x]
    by (simp add: example_backup_target example_env_fields example_modes example_mode_bits)
  have b: "\<not> is_dir (example_fs ?x) (backup_path example_sf (timestamp ?e))"
    by (simp add: example_timestamp example_backup_path is_dir_def example_fs_free)
  have c: "valid_datetime (now ?e)"
    by (simp add: example_env_fields valid_datetime_def example_now_def)
  have d: "year_padded ?e \<or> 1000 \<le> year (now ?e)"
    by (simp add: example_env_fields example_now_def)
  from backup_name_convention [OF example_fs_file(2) a b c d] a show ?thesis
    by (simp add: example_timestamp example_backup_path example_fs_free)
qed

section \<open>The run\<close>































section \<open>Two runs in succession\<close>












end
